theory Spec2Isabelle
  imports Main
begin

section \<open>AgriHub API: a shallow embedding of the request handlers\<close>

text \<open>
  The repository holds two variants of one Express server: \<^verbatim>\<open>src/index.js\<close>, written
  against a PostgreSQL connection pool (the identifier \<^verbatim>\<open>pool\<close>, which the file uses and
  never declares, is taken as a parameter: the database below), and
  \<^verbatim>\<open>src/index-sqlite.js\<close>, written against an SQLite file. Where the two differ, the
  handlers below branch on a \<open>backend\<close>.

  Conventions of the embedding.
  \<^item> A handler is a function from the server's state (the database and the in-memory
    \<^verbatim>\<open>otpStore\<close>) and the request to the new state and the response; what the source reads
    from its environment (\<^verbatim>\<open>Date.now()\<close>, \<^verbatim>\<open>Math.random()\<close>, \<^verbatim>\<open>process.env\<close>) is an argument.
  \<^item> A table is the list of its rows in insertion order. A column type is a HOL type
    (\<open>string\<close> for text that fits its column, \<open>int\<close> for an INTEGER, an amount in
    hundredths for a DECIMAL(10,2) or REAL of money, \<open>nat\<close> for a well-formed UUID);
    a nullable column is an \<open>option\<close>. JavaScript numbers are read as exact decimals.
  \<^item> The constraints the \<^verbatim>\<open>CREATE TABLE\<close> statements of \<^verbatim>\<open>initDB\<close> declare (NOT NULL,
    UNIQUE, CHECK, REFERENCES) are checked by the insert functions; a violated constraint
    is the exception \<open>DbError\<close>. SQLite does not enforce REFERENCES unless asked to
    (the source never asks), PostgreSQL does.
  \<^item> Ids that \<^verbatim>\<open>gen_random_uuid()\<close> or \<^verbatim>\<open>uuidv4()\<close> generate are fresh for their table.
  \<^item> A request field that is absent and one that is the empty string are both falsy in
    the source's \<^verbatim>\<open>!field\<close> tests; for the fields so tested the model writes \<open>''''\<close> for both.
  \<^item> Query parameters that the source uses as numbers (\<^verbatim>\<open>page\<close>, \<^verbatim>\<open>limit\<close>) are integers,
    absent ones \<open>None\<close>.
  \<^item> \<^verbatim>\<open>ORDER BY created_at DESC\<close> is a stable sort of the rows, reversed; among rows of
    one timestamp the database is free to choose, and no property below depends on the
    choice.
  \<^item> Columns no statement's outcome depends on (descriptions, images, update stamps) are
    left out of the rows.
\<close>

subsection \<open>Basic types\<close>

type_synonym uuid = nat

text \<open>Milliseconds since the epoch, as \<^verbatim>\<open>Date.now()\<close> returns them.\<close>

type_synonym time = nat

text \<open>Money in hundredths of a unit.\<close>

type_synonym amount = int

datatype backend = Postgres | Sqlite

datatype exn = TypeError | DbError string

subsection \<open>The tables\<close>

record user =
  u_id :: uuid
  u_name :: string
  u_email :: "string option"
  u_phone :: string
  u_role :: string
  u_location :: "string option"
  u_is_verified :: bool

record equipment =
  e_id :: uuid
  e_owner_id :: "uuid option"
  e_name :: string
  e_type :: string
  e_base_rate_per_day :: amount
  e_location :: "string option"
  e_availability_status :: "string option"
  e_created_at :: time

record produce =
  pc_id :: uuid
  pc_farmer_id :: "uuid option"
  pc_name :: string
  pc_category :: string
  pc_price_per_kg :: amount
  pc_stock_kg :: "int option"
  pc_organic :: "bool option"
  pc_created_at :: time

record product =
  pd_id :: uuid
  pd_supplier_id :: "uuid option"
  pd_name :: string
  pd_category :: string
  pd_price_per_unit :: amount

record order_row =
  o_id :: uuid
  o_buyer_id :: "uuid option"
  o_seller_id :: "uuid option"
  o_total_amount :: amount
  o_status :: string
  o_payment_status :: string
  o_delivery_address :: "string option"

record order_item =
  oi_id :: uuid
  oi_order_id :: "uuid option"
  oi_product_id :: "uuid option"
  oi_produce_id :: "uuid option"
  oi_quantity :: int
  oi_unit_price :: amount
  oi_total_price :: amount

record database =
  users :: "user list"
  equipment_tbl :: "equipment list"
  produce_tbl :: "produce list"
  products :: "product list"
  orders :: "order_row list"
  order_items :: "order_item list"

text \<open>A generated id: one more than every id of the table.\<close>

definition fresh_id :: "uuid list \<Rightarrow> uuid" where
  "fresh_id ids = Suc (foldr max ids 0)"

subsection \<open>Session tokens\<close>

text \<open>
  \<^verbatim>\<open>jsonwebtoken\<close> is modelled symbolically: a token is its payload, the secret it was
  signed with and its expiry (in seconds). \<^verbatim>\<open>jwt.verify\<close> accepts a token signed with the
  verifier's secret that has not expired.
\<close>

record jwt_payload =
  userId :: uuid
  phone :: string
  role :: string

record jwt =
  payload :: jwt_payload
  signed_with :: string
  exp :: nat

text \<open>A word of a header: plain text, or a token.\<close>

datatype word = Plain string | Signed jwt

record env =
  JWT_SECRET :: "string option"

text \<open>\<^verbatim>\<open>process.env.JWT_SECRET || 'fallback_secret'\<close>\<close>

definition secret :: "env \<Rightarrow> string" where
  "secret ev =
     (case JWT_SECRET ev of
        None \<Rightarrow> ''fallback_secret''
      | Some s \<Rightarrow> if s = '''' then ''fallback_secret'' else s)"

text \<open>\<^verbatim>\<open>jwt.sign(payload, secret, { expiresIn: '7d' })\<close>\<close>

definition jwt_sign :: "jwt_payload \<Rightarrow> string \<Rightarrow> time \<Rightarrow> jwt" where
  "jwt_sign p key now = \<lparr>payload = p, signed_with = key, exp = now div 1000 + 604800\<rparr>"

definition jwt_verify :: "word \<Rightarrow> string \<Rightarrow> time \<Rightarrow> jwt_payload option" where
  "jwt_verify w key now =
     (case w of
        Plain s \<Rightarrow> None
      | Signed t \<Rightarrow>
          if signed_with t = key \<and> now div 1000 < exp t then Some (payload t) else None)"

subsection \<open>Responses\<close>

record user_view =
  uv_id :: uuid
  uv_name :: string
  uv_email :: "string option"
  uv_phone :: string
  uv_role :: string
  uv_location :: "string option"

record equipment_listing =
  el_row :: equipment
  owner_name :: string
  owner_phone :: string
  owner_location :: "string option"

record produce_listing =
  pl_row :: produce
  farmer_name :: string
  farmer_phone :: string
  farmer_location :: "string option"

record pagination =
  pg_page :: int
  pg_limit :: int
  pg_total :: nat

datatype body =
    ErrorBody string
  | OtpSent string string
  | Session jwt user_view
  | EquipmentPage "equipment_listing list" pagination
  | ProducePage "produce_listing list" pagination
  | EquipmentCreated "equipment option"
  | OrderCreated uuid amount

text \<open>The HTTP status and the JSON body.\<close>

type_synonym response = "nat \<times> body"

definition internal_error :: response where
  "internal_error = (500, ErrorBody ''Internal server error'')"

subsection \<open>Middleware\<close>

text \<open>
  The request's \<^verbatim>\<open>authorization\<close> header, already split at its spaces
  (\<^verbatim>\<open>authHeader.split(' ')\<close>); \<open>None\<close> when the header is absent.
\<close>

type_synonym headers = "word list option"

text \<open>\<^verbatim>\<open>authHeader && authHeader.split(' ')[1]\<close>\<close>

definition bearer :: "headers \<Rightarrow> word option" where
  "bearer h =
     (case h of
        None \<Rightarrow> None
      | Some ws \<Rightarrow> if 1 < length ws then Some (ws ! 1) else None)"

definition authenticateToken :: "env \<Rightarrow> time \<Rightarrow> headers \<Rightarrow> response + jwt_payload" where
  "authenticateToken ev now h =
     (case bearer h of
        None \<Rightarrow> Inl (401, ErrorBody ''Access token required'')
      | Some w \<Rightarrow>
          if w = Plain '''' then Inl (401, ErrorBody ''Access token required'')
          else (case jwt_verify w (secret ev) now of
                  None \<Rightarrow> Inl (403, ErrorBody ''Invalid or expired token'')
                | Some u \<Rightarrow> Inr u))"

definition authorizeRole :: "string list \<Rightarrow> jwt_payload \<Rightarrow> response option" where
  "authorizeRole roles u =
     (if role u \<notin> set roles then Some (403, ErrorBody ''Insufficient permissions'')
      else None)"

subsection \<open>One-time codes\<close>

definition digit_char :: "nat \<Rightarrow> char" where
  "digit_char d = ''0123456789'' ! (d mod 10)"

text \<open>\<^verbatim>\<open>Number.prototype.toString\<close> on a natural number.\<close>

function toString :: "nat \<Rightarrow> string" where
  "toString n = (if n < 10 then [digit_char n] else toString (n div 10) @ [digit_char n])"
  by pat_completeness auto
termination
  by (relation "measure id") auto

text \<open>
  \<^verbatim>\<open>Math.floor(100000 + Math.random() * 900000).toString()\<close>; the argument is
  \<^verbatim>\<open>Math.floor(Math.random() * 900000)\<close>, the only thing the call reads from outside.
\<close>

definition generateOTP :: "nat \<Rightarrow> string" where
  "generateOTP rnd = toString (100000 + rnd)"

record user_data =
  ud_name :: string
  ud_email :: "string option"
  ud_phone :: string
  ud_role :: string
  ud_location :: "string option"

record otp_entry =
  otp :: string
  userData :: "user_data option"
  expiresAt :: time

record server =
  db :: database
  otpStore :: "string \<rightharpoonup> otp_entry"

subsection \<open>The users table\<close>

definition allowed_roles :: "string list" where
  "allowed_roles =
     [''farmer'', ''equipment_provider'', ''input_supplier'', ''transport_provider'',
      ''consumer'', ''admin'']"

text \<open>
  \<^verbatim>\<open>SELECT id FROM users WHERE phone = $1 OR email = $2\<close>: a comparison with NULL selects
  nothing.
\<close>

definition users_by_phone_or_email :: "database \<Rightarrow> string \<Rightarrow> string option \<Rightarrow> user list" where
  "users_by_phone_or_email d p e =
     filter (\<lambda>u. u_phone u = p \<or> (e \<noteq> None \<and> u_email u = e)) (users d)"

definition users_by_phone :: "database \<Rightarrow> string \<Rightarrow> user list" where
  "users_by_phone d p = filter (\<lambda>u. u_phone u = p) (users d)"

definition users_by_id :: "database \<Rightarrow> uuid \<Rightarrow> user list" where
  "users_by_id d i = filter (\<lambda>u. u_id u = i) (users d)"

text \<open>
  \<^verbatim>\<open>INSERT INTO users (id, name, email, phone, role, location, is_verified)\<close> under the
  table's constraints: \<^verbatim>\<open>phone UNIQUE\<close>, \<^verbatim>\<open>email UNIQUE\<close> (NULLs never collide) and the
  CHECK on \<^verbatim>\<open>role\<close>. It returns the new table and the stored row.
\<close>

definition insert_user ::
  "database \<Rightarrow> uuid \<Rightarrow> string \<Rightarrow> string option \<Rightarrow> string \<Rightarrow> string \<Rightarrow> string option \<Rightarrow>
   exn + database \<times> user" where
  "insert_user d i n e p r l =
     (if users_by_phone d p \<noteq> [] then Inl (DbError ''users.phone UNIQUE'')
      else if e \<noteq> None \<and> filter (\<lambda>u. u_email u = e) (users d) \<noteq> []
        then Inl (DbError ''users.email UNIQUE'')
      else if r \<notin> set allowed_roles then Inl (DbError ''users.role CHECK'')
      else
        let row = \<lparr>u_id = i, u_name = n, u_email = e, u_phone = p, u_role = r,
                   u_location = l, u_is_verified = True\<rparr>
        in Inr (d\<lparr>users := users d @ [row]\<rparr>, row))"

subsection \<open>Authentication routes\<close>

record register_body =
  rb_name :: string
  rb_email :: "string option"
  rb_phone :: string
  rb_role :: string
  rb_location :: "string option"

text \<open>\<^verbatim>\<open>POST /api/v1/auth/register\<close>\<close>

definition register :: "nat \<Rightarrow> time \<Rightarrow> server \<Rightarrow> register_body \<Rightarrow> server \<times> response" where
  "register rnd now s b =
     (if rb_name b = '''' \<or> rb_phone b = '''' \<or> rb_role b = ''''
        then (s, (400, ErrorBody ''Name, phone, and role are required''))
      else if users_by_phone_or_email (db s) (rb_phone b) (rb_email b) \<noteq> []
        then (s, (400, ErrorBody ''User already exists with this phone or email''))
      else
        let code = generateOTP rnd;
            ud = \<lparr>ud_name = rb_name b, ud_email = rb_email b, ud_phone = rb_phone b,
                  ud_role = rb_role b, ud_location = rb_location b\<rparr>
        in (s\<lparr>otpStore := (otpStore s)
                (rb_phone b \<mapsto> \<lparr>otp = code, userData = Some ud, expiresAt = now + 300000\<rparr>)\<rparr>,
            (200, OtpSent ''OTP sent successfully'' (rb_phone b))))"

text \<open>
  \<^verbatim>\<open>POST /api/v1/auth/request-otp\<close>. The PostgreSQL variant first selects the user with
  that phone and drops the result; both variants then store the same entry.
\<close>

definition request_otp :: "nat \<Rightarrow> time \<Rightarrow> server \<Rightarrow> string \<Rightarrow> server \<times> response" where
  "request_otp rnd now s p =
     (if p = '''' then (s, (400, ErrorBody ''Phone number is required''))
      else
        let code = generateOTP rnd
        in (s\<lparr>otpStore := (otpStore s)
                (p \<mapsto> \<lparr>otp = code, userData = None, expiresAt = now + 300000\<rparr>)\<rparr>,
            (200, OtpSent ''OTP sent successfully'' p)))"

record verify_body =
  vb_phone :: string
  vb_otp :: string

definition view_of :: "user \<Rightarrow> user_view" where
  "view_of u =
     \<lparr>uv_id = u_id u, uv_name = u_name u, uv_email = u_email u, uv_phone = u_phone u,
      uv_role = u_role u, uv_location = u_location u\<rparr>"

text \<open>
  The tail of \<^verbatim>\<open>verify-otp\<close> once \<^verbatim>\<open>user\<close> is known: sign the token, clear the entry,
  answer.
\<close>

definition issue_session :: "env \<Rightarrow> time \<Rightarrow> server \<Rightarrow> string \<Rightarrow> user \<Rightarrow> server \<times> response" where
  "issue_session ev now s p u =
     (let token = jwt_sign \<lparr>userId = u_id u, phone = u_phone u, role = u_role u\<rparr> (secret ev) now
      in (s\<lparr>otpStore := (otpStore s)(p := None)\<rparr>, (200, Session token (view_of u))))"

text \<open>
  The registration branch. PostgreSQL inserts and reads the row back with
  \<^verbatim>\<open>RETURNING\<close>; the SQLite variant generates the id itself, inserts, and selects the row
  by that id (\<^verbatim>\<open>user.id\<close> on a missing row would be a TypeError, after the insert).
\<close>

definition create_user ::
  "backend \<Rightarrow> env \<Rightarrow> time \<Rightarrow> server \<Rightarrow> string \<Rightarrow> user_data \<Rightarrow> server \<times> response" where
  "create_user bk ev now s p ud =
     (let i = fresh_id (map u_id (users (db s)))
      in case insert_user (db s) i (ud_name ud) (ud_email ud) p (ud_role ud) (ud_location ud) of
           Inl e \<Rightarrow> (s, internal_error)
         | Inr (d', row) \<Rightarrow>
             (case bk of
                Postgres \<Rightarrow> issue_session ev now (s\<lparr>db := d'\<rparr>) p row
              | Sqlite \<Rightarrow>
                  (case users_by_id d' i of
                     [] \<Rightarrow> (s\<lparr>db := d'\<rparr>, internal_error)
                   | u # _ \<Rightarrow> issue_session ev now (s\<lparr>db := d'\<rparr>) p u)))"

text \<open>\<^verbatim>\<open>POST /api/v1/auth/verify-otp\<close>\<close>

definition verify_otp :: "backend \<Rightarrow> env \<Rightarrow> time \<Rightarrow> server \<Rightarrow> verify_body \<Rightarrow> server \<times> response" where
  "verify_otp bk ev now s b =
     (if vb_phone b = '''' \<or> vb_otp b = ''''
        then (s, (400, ErrorBody ''Phone and OTP are required''))
      else
        case otpStore s (vb_phone b) of
          None \<Rightarrow> (s, (400, ErrorBody ''OTP expired or invalid''))
        | Some storedData \<Rightarrow>
            if expiresAt storedData < now
              then (s, (400, ErrorBody ''OTP expired or invalid''))
            else if otp storedData \<noteq> vb_otp b
              then (s, (400, ErrorBody ''Invalid OTP''))
            else
              (case userData storedData of
                 Some ud \<Rightarrow> create_user bk ev now s (vb_phone b) ud
               | None \<Rightarrow>
                   (case users_by_phone (db s) (vb_phone b) of
                      [] \<Rightarrow> (s, (400, ErrorBody ''User not found''))
                    | u # _ \<Rightarrow> issue_session ev now s (vb_phone b) u)))"

subsection \<open>Listings\<close>

text \<open>
  \<^verbatim>\<open>LIMIT ? OFFSET ?\<close> on the ordered rows. PostgreSQL rejects a negative limit or
  offset; SQLite reads a negative limit as no limit and a negative offset as none.
\<close>

definition limit_offset :: "backend \<Rightarrow> int \<Rightarrow> int \<Rightarrow> 'a list \<Rightarrow> exn + 'a list" where
  "limit_offset bk lim off rows =
     (case bk of
        Postgres \<Rightarrow>
          if lim < 0 then Inl (DbError ''LIMIT must not be negative'')
          else if off < 0 then Inl (DbError ''OFFSET must not be negative'')
          else Inr (take (nat lim) (drop (nat off) rows))
      | Sqlite \<Rightarrow>
          Inr (if lim < 0 then drop (nat off) rows else take (nat lim) (drop (nat off) rows)))"

text \<open>JavaScript's truthiness of an optional string: absent and empty are falsy.\<close>

definition truthy :: "string option \<Rightarrow> bool" where
  "truthy v = (case v of None \<Rightarrow> False | Some s \<Rightarrow> s \<noteq> [])"

record equipment_query =
  eq_page :: "int option"
  eq_limit :: "int option"
  eq_type :: "string option"
  eq_location :: "string option"

text \<open>\<^verbatim>\<open>FROM equipment e JOIN users u ON e.owner_id = u.id\<close>\<close>

definition equipment_join :: "database \<Rightarrow> equipment_listing list" where
  "equipment_join d =
     concat (map (\<lambda>e. map (\<lambda>u. \<lparr>el_row = e, owner_name = u_name u, owner_phone = u_phone u,
                                  owner_location = u_location u\<rparr>)
                           (filter (\<lambda>u. e_owner_id e = Some (u_id u)) (users d)))
                 (equipment_tbl d))"

text \<open>
  The WHERE clause the handler builds. \<open>like\<close> is the database's pattern match
  (\<^verbatim>\<open>ILIKE\<close> in PostgreSQL, \<^verbatim>\<open>LIKE\<close> in SQLite) of a text against a pattern.
\<close>

definition equipment_where ::
  "(string \<Rightarrow> string \<Rightarrow> bool) \<Rightarrow> equipment_query \<Rightarrow> equipment_listing \<Rightarrow> bool" where
  "equipment_where like q r =
     (e_availability_status (el_row r) = Some ''available''
      \<and> (if truthy (eq_type q) then Some (e_type (el_row r)) = eq_type q else True)
      \<and> (if truthy (eq_location q)
           then (case e_location (el_row r) of
                   None \<Rightarrow> False
                 | Some l \<Rightarrow> like l (''%'' @ the (eq_location q) @ ''%''))
           else True))"

text \<open>\<^verbatim>\<open>GET /api/v1/equipment\<close>\<close>

definition get_equipment ::
  "backend \<Rightarrow> (string \<Rightarrow> string \<Rightarrow> bool) \<Rightarrow> database \<Rightarrow> equipment_query \<Rightarrow> response" where
  "get_equipment bk like d q =
     (let page = (case eq_page q of None \<Rightarrow> 1 | Some p \<Rightarrow> p);
          limit = (case eq_limit q of None \<Rightarrow> 10 | Some l \<Rightarrow> l);
          offset = (page - 1) * limit;
          matching = rev (sort_key (\<lambda>r. e_created_at (el_row r))
                            (filter (equipment_where like q) (equipment_join d)))
      in case limit_offset bk limit offset matching of
           Inl e \<Rightarrow> internal_error
         | Inr rows \<Rightarrow>
             (200, EquipmentPage rows
                     \<lparr>pg_page = page, pg_limit = limit, pg_total = length rows\<rparr>))"





subsection \<open>Creating equipment\<close>

record equipment_body =
  eb_name :: "string option"
  eb_type :: "string option"
  eb_baseRatePerDay :: "amount option"
  eb_location :: "string option"

text \<open>
  \<^verbatim>\<open>INSERT INTO equipment (...)\<close>: \<^verbatim>\<open>name\<close>, \<^verbatim>\<open>type\<close> and \<^verbatim>\<open>base_rate_per_day\<close> are
  NOT NULL, \<^verbatim>\<open>owner_id\<close> references \<^verbatim>\<open>users(id)\<close>, the status defaults to
  \<^verbatim>\<open>'available'\<close>.
\<close>

definition insert_equipment ::
  "backend \<Rightarrow> database \<Rightarrow> uuid \<Rightarrow> uuid \<Rightarrow> equipment_body \<Rightarrow> time \<Rightarrow> exn + database \<times> equipment"
  where
  "insert_equipment bk d i ownerId b now =
     (case (eb_name b, eb_type b, eb_baseRatePerDay b) of
        (Some n, Some t, Some rate) \<Rightarrow>
          if bk = Postgres \<and> users_by_id d ownerId = []
            then Inl (DbError ''equipment.owner_id REFERENCES users'')
          else
            let row = \<lparr>e_id = i, e_owner_id = Some ownerId, e_name = n, e_type = t,
                       e_base_rate_per_day = rate, e_location = eb_location b,
                       e_availability_status = Some ''available'', e_created_at = now\<rparr>
            in Inr (d\<lparr>equipment_tbl := equipment_tbl d @ [row]\<rparr>, row)
      | _ \<Rightarrow> Inl (DbError ''equipment NOT NULL''))"

text \<open>
  \<^verbatim>\<open>POST /api/v1/equipment\<close>:
  \<^verbatim>\<open>authenticateToken, authorizeRole(['equipment_provider'])\<close>, then the handler. The
  SQLite variant answers with the row it selects by the new id.
\<close>

definition post_equipment ::
  "backend \<Rightarrow> env \<Rightarrow> time \<Rightarrow> database \<Rightarrow> headers \<Rightarrow> equipment_body \<Rightarrow> database \<times> response" where
  "post_equipment bk ev now d h b =
     (case authenticateToken ev now h of
        Inl r \<Rightarrow> (d, r)
      | Inr u \<Rightarrow>
          (case authorizeRole [''equipment_provider''] u of
             Some r \<Rightarrow> (d, r)
           | None \<Rightarrow>
               (case insert_equipment bk d (fresh_id (map e_id (equipment_tbl d))) (userId u) b now of
                  Inl e \<Rightarrow> (d, internal_error)
                | Inr (d', row) \<Rightarrow>
                    (case bk of
                       Postgres \<Rightarrow> (d', (201, EquipmentCreated (Some row)))
                     | Sqlite \<Rightarrow>
                         (case filter (\<lambda>e. e_id e = e_id row) (equipment_tbl d') of
                            [] \<Rightarrow> (d', (201, EquipmentCreated None))
                          | e # _ \<Rightarrow> (d', (201, EquipmentCreated (Some e))))))))"

subsection \<open>Creating an order\<close>

record order_line =
  sellerId :: "uuid option"
  itemType :: string
  itemId :: uuid
  quantity :: int

record order_body =
  items :: "order_line list option"
  deliveryAddress :: "string option"

text \<open>
  \<^verbatim>\<open>INSERT INTO orders (buyer_id, seller_id, total_amount, delivery_address)\<close>: both ids
  reference \<^verbatim>\<open>users(id)\<close> (a NULL references nothing), status and payment status default
  to \<^verbatim>\<open>'pending'\<close>.
\<close>

definition insert_order ::
  "database \<Rightarrow> uuid \<Rightarrow> uuid option \<Rightarrow> amount \<Rightarrow> string option \<Rightarrow> exn + database \<times> order_row" where
  "insert_order d buyerId seller totalAmount address =
     (if users_by_id d buyerId = [] then Inl (DbError ''orders.buyer_id REFERENCES users'')
      else if (case seller of None \<Rightarrow> False | Some s \<Rightarrow> users_by_id d s = [])
        then Inl (DbError ''orders.seller_id REFERENCES users'')
      else
        let row = \<lparr>o_id = fresh_id (map o_id (orders d)), o_buyer_id = Some buyerId,
                   o_seller_id = seller, o_total_amount = totalAmount, o_status = ''pending'',
                   o_payment_status = ''pending'', o_delivery_address = address\<rparr>
        in Inr (d\<lparr>orders := orders d @ [row]\<rparr>, row))"

definition produce_by_id :: "database \<Rightarrow> uuid \<Rightarrow> produce list" where
  "produce_by_id d i = filter (\<lambda>p. pc_id p = i) (produce_tbl d)"

definition products_by_id :: "database \<Rightarrow> uuid \<Rightarrow> product list" where
  "products_by_id d i = filter (\<lambda>p. pd_id p = i) (products d)"

text \<open>
  The price lookup of one line: \<^verbatim>\<open>produce.rows[0].price_per_kg\<close> or
  \<^verbatim>\<open>product.rows[0].price_per_unit\<close>, a TypeError when the select returns no row, and
  \<^verbatim>\<open>undefined\<close> (here \<open>None\<close>) for a line of any other type.
\<close>

definition unit_price_of :: "database \<Rightarrow> order_line \<Rightarrow> exn + amount option" where
  "unit_price_of d item =
     (if itemType item = ''produce'' then
        (case produce_by_id d (itemId item) of
           [] \<Rightarrow> Inl TypeError
         | p # _ \<Rightarrow> Inr (Some (pc_price_per_kg p)))
      else if itemType item = ''product'' then
        (case products_by_id d (itemId item) of
           [] \<Rightarrow> Inl TypeError
         | p # _ \<Rightarrow> Inr (Some (pd_price_per_unit p)))
      else Inr None)"

text \<open>
  \<^verbatim>\<open>INSERT INTO order_items (order_id, produce_id, product_id, quantity, unit_price,
  total_price)\<close>: the three ids reference their tables.
\<close>

definition insert_order_item ::
  "database \<Rightarrow> uuid \<Rightarrow> uuid option \<Rightarrow> uuid option \<Rightarrow> int \<Rightarrow> amount \<Rightarrow> amount \<Rightarrow> exn + database"
  where
  "insert_order_item d orderId produceId productId qty unitPrice itemTotal =
     (if filter (\<lambda>r. o_id r = orderId) (orders d) = []
        then Inl (DbError ''order_items.order_id REFERENCES orders'')
      else if (case produceId of None \<Rightarrow> False | Some i \<Rightarrow> produce_by_id d i = [])
        then Inl (DbError ''order_items.produce_id REFERENCES produce'')
      else if (case productId of None \<Rightarrow> False | Some i \<Rightarrow> products_by_id d i = [])
        then Inl (DbError ''order_items.product_id REFERENCES products'')
      else
        Inr (d\<lparr>order_items := order_items d @
                 [\<lparr>oi_id = fresh_id (map oi_id (order_items d)), oi_order_id = Some orderId,
                   oi_product_id = productId, oi_produce_id = produceId, oi_quantity = qty,
                   oi_unit_price = unitPrice, oi_total_price = itemTotal\<rparr>]\<rparr>))"

text \<open>
  The loop over the lines, with the running \<^verbatim>\<open>totalAmount\<close>. A line that is neither
  produce nor product leaves \<^verbatim>\<open>unitPrice\<close> undefined: its INSERT binds NULL to
  \<^verbatim>\<open>unit_price\<close>, which is NOT NULL, and the total it spoilt is never used.
\<close>

fun create_items :: "database \<Rightarrow> uuid \<Rightarrow> order_line list \<Rightarrow> amount \<Rightarrow> exn + database \<times> amount" where
  "create_items d orderId [] totalAmount = Inr (d, totalAmount)"
| "create_items d orderId (item # rest) totalAmount =
     (case unit_price_of d item of
        Inl e \<Rightarrow> Inl e
      | Inr None \<Rightarrow> Inl (DbError ''order_items.unit_price NOT NULL'')
      | Inr (Some unitPrice) \<Rightarrow>
          (let itemTotal = unitPrice * quantity item
           in case insert_order_item d orderId
                     (if itemType item = ''produce'' then Some (itemId item) else None)
                     (if itemType item = ''product'' then Some (itemId item) else None)
                     (quantity item) unitPrice itemTotal of
                Inl e \<Rightarrow> Inl e
              | Inr d' \<Rightarrow> create_items d' orderId rest (totalAmount + itemTotal)))"

text \<open>\<^verbatim>\<open>UPDATE orders SET total_amount = $1 WHERE id = $2\<close>\<close>

definition update_order_total :: "database \<Rightarrow> amount \<Rightarrow> uuid \<Rightarrow> database" where
  "update_order_total d totalAmount orderId =
     d\<lparr>orders := map (\<lambda>r. if o_id r = orderId then r\<lparr>o_total_amount := totalAmount\<rparr> else r)
                       (orders d)\<rparr>"

text \<open>
  What runs between \<^verbatim>\<open>BEGIN\<close> and \<^verbatim>\<open>COMMIT\<close>. \<^verbatim>\<open>items[0].sellerId\<close> is a TypeError
  when \<^verbatim>\<open>items\<close> is absent or empty.
\<close>

definition order_transaction ::
  "database \<Rightarrow> uuid \<Rightarrow> order_body \<Rightarrow> exn + database \<times> uuid \<times> amount" where
  "order_transaction d buyerId b =
     (case items b of
        None \<Rightarrow> Inl TypeError
      | Some [] \<Rightarrow> Inl TypeError
      | Some (first # rest) \<Rightarrow>
          (case insert_order d buyerId (sellerId first) 0 (deliveryAddress b) of
             Inl e \<Rightarrow> Inl e
           | Inr (d1, row) \<Rightarrow>
               (case create_items d1 (o_id row) (first # rest) 0 of
                  Inl e \<Rightarrow> Inl e
                | Inr (d2, totalAmount) \<Rightarrow>
                    Inr (update_order_total d2 totalAmount (o_id row), o_id row, totalAmount))))"

text \<open>
  The handler proper: an exception inside the transaction is answered by \<^verbatim>\<open>ROLLBACK\<close>
  (the database is the one the request found) and rethrown to the outer \<^verbatim>\<open>catch\<close>, which
  answers 500; otherwise \<^verbatim>\<open>COMMIT\<close> and 201.
\<close>

definition create_order :: "database \<Rightarrow> jwt_payload \<Rightarrow> order_body \<Rightarrow> database \<times> response" where
  "create_order d u b =
     (case order_transaction d (userId u) b of
        Inl e \<Rightarrow> (d, internal_error)
      | Inr (d', orderId, totalAmount) \<Rightarrow> (d', (201, OrderCreated orderId totalAmount)))"

text \<open>\<^verbatim>\<open>POST /api/v1/orders\<close>: \<^verbatim>\<open>authenticateToken\<close>, then the handler.\<close>

definition post_orders ::
  "env \<Rightarrow> time \<Rightarrow> database \<Rightarrow> headers \<Rightarrow> order_body \<Rightarrow> database \<times> response" where
  "post_orders ev now d h b =
     (case authenticateToken ev now h of
        Inl r \<Rightarrow> (d, r)
      | Inr u \<Rightarrow> create_order d u b)"

subsection \<open>Notions the statements use\<close>

text \<open>A line whose type is produce or product and whose id selects no row of that table.\<close>

definition missing_catalog_row :: "database \<Rightarrow> order_line \<Rightarrow> bool" where
  "missing_catalog_row d item =
     (itemType item = ''produce'' \<and> produce_by_id d (itemId item) = []
      \<or> itemType item = ''product'' \<and> products_by_id d (itemId item) = [])"

text \<open>A line that references an existing produce or product row.\<close>

definition catalog_row_exists :: "database \<Rightarrow> order_line \<Rightarrow> bool" where
  "catalog_row_exists d item =
     (itemType item = ''produce'' \<and> produce_by_id d (itemId item) \<noteq> []
      \<or> itemType item = ''product'' \<and> products_by_id d (itemId item) \<noteq> [])"





subsection \<open>Sample data\<close>

text \<open>
  The rows \<^verbatim>\<open>seedData\<close> of \<^verbatim>\<open>src/index-sqlite.js\<close> inserts (three of its users, its
  equipment and its produce), one product, and one row of each listing that its default
  filter hides.
\<close>

definition rajesh :: user where
  "rajesh = \<lparr>u_id = 1, u_name = ''Rajesh Kumar'', u_email = None, u_phone = ''9876543210'',
             u_role = ''farmer'', u_location = Some ''Punjab'', u_is_verified = True\<rparr>"

definition priya :: user where
  "priya = \<lparr>u_id = 2, u_name = ''Priya Sharma'', u_email = None, u_phone = ''9876543211'',
            u_role = ''equipment_provider'', u_location = Some ''Haryana'', u_is_verified = True\<rparr>"

definition amit :: user where
  "amit = \<lparr>u_id = 3, u_name = ''Amit Patel'', u_email = None, u_phone = ''9876543212'',
           u_role = ''consumer'', u_location = Some ''Gujarat'', u_is_verified = True\<rparr>"

definition tractor :: equipment where
  "tractor = \<lparr>e_id = 1, e_owner_id = Some 2, e_name = ''John Deere 5310 Tractor'',
              e_type = ''tractor'', e_base_rate_per_day = 150000,
              e_location = Some ''Haryana, India'', e_availability_status = Some ''available'',
              e_created_at = 100\<rparr>"

definition harvester :: equipment where
  "harvester = \<lparr>e_id = 2, e_owner_id = Some 2, e_name = ''Kubota Combine Harvester'',
                e_type = ''harvester'', e_base_rate_per_day = 250000,
                e_location = Some ''Haryana, India'', e_availability_status = Some ''available'',
                e_created_at = 200\<rparr>"

definition sprayer :: equipment where
  "sprayer = \<lparr>e_id = 3, e_owner_id = Some 2, e_name = ''Boom Sprayer'',
              e_type = ''sprayer'', e_base_rate_per_day = 80000,
              e_location = Some ''Haryana, India'', e_availability_status = Some ''rented'',
              e_created_at = 300\<rparr>"

definition tomatoes :: produce where
  "tomatoes = \<lparr>pc_id = 1, pc_farmer_id = Some 1, pc_name = ''Fresh Organic Tomatoes'',
               pc_category = ''vegetables'', pc_price_per_kg = 4550, pc_stock_kg = Some 500,
               pc_organic = Some True, pc_created_at = 100\<rparr>"

definition rice :: produce where
  "rice = \<lparr>pc_id = 2, pc_farmer_id = Some 1, pc_name = ''Premium Basmati Rice'',
           pc_category = ''grains'', pc_price_per_kg = 12000, pc_stock_kg = Some 1000,
           pc_organic = Some False, pc_created_at = 200\<rparr>"

definition onions :: produce where
  "onions = \<lparr>pc_id = 3, pc_farmer_id = Some 1, pc_name = ''Red Onions'',
             pc_category = ''vegetables'', pc_price_per_kg = 3000, pc_stock_kg = Some 0,
             pc_organic = Some False, pc_created_at = 300\<rparr>"

definition urea :: product where
  "urea = \<lparr>pd_id = 1, pd_supplier_id = Some 2, pd_name = ''Urea 45 kg'',
           pd_category = ''fertilizer'', pd_price_per_unit = 30000\<rparr>"

definition seed_db :: database where
  "seed_db = \<lparr>users = [rajesh, priya, amit], equipment_tbl = [tractor, harvester, sprayer],
              produce_tbl = [tomatoes, rice, onions], products = [urea], orders = [],
              order_items = []\<rparr>"

definition seed_server :: server where
  "seed_server = \<lparr>db = seed_db, otpStore = Map.empty\<rparr>"

definition no_env :: env where
  "no_env = \<lparr>JWT_SECRET = None\<rparr>"

text \<open>The header \<^verbatim>\<open>Bearer <token>\<close> with the token the server signs for a user.\<close>

definition bearer_of :: "user \<Rightarrow> time \<Rightarrow> headers" where
  "bearer_of u now =
     Some [Plain ''Bearer'',
           Signed (jwt_sign \<lparr>userId = u_id u, phone = u_phone u, role = u_role u\<rparr>
                     ''fallback_secret'' now)]"

text \<open>A substring test, standing in for the database's pattern match on \<^verbatim>\<open>%text%\<close>.\<close>

definition contains_like :: "string \<Rightarrow> string \<Rightarrow> bool" where
  "contains_like subject pattern =
     (\<exists>k\<in>set [0..<Suc (length subject)].
        take (length pattern - 2) (drop k subject) = butlast (tl pattern))"

text \<open>The server after one OTP request for Rajesh's phone, and after a second one.\<close>

definition pending_login :: server where
  "pending_login = fst (request_otp 23456 0 seed_server ''9876543210'')"

definition pending_relogin :: server where
  "pending_relogin = fst (request_otp 65432 1000 pending_login ''9876543210'')"

text \<open>The registration of the specification's example, and one with a role of its own.\<close>

definition asha :: register_body where
  "asha = \<lparr>rb_name = ''Asha'', rb_email = None, rb_phone = ''9000000001'',
           rb_role = ''farmer'', rb_location = None\<rparr>"


definition plough :: equipment_body where
  "plough = \<lparr>eb_name = Some ''Plough'', eb_type = Some ''plough'',
             eb_baseRatePerDay = Some 50000, eb_location = None\<rparr>"

text \<open>Three kilograms of tomatoes and two bags of urea; a line for produce that is not there.\<close>

definition tomato_line :: order_line where
  "tomato_line = \<lparr>sellerId = Some 1, itemType = ''produce'', itemId = 1, quantity = 3\<rparr>"


definition ghost_line :: order_line where
  "ghost_line = \<lparr>sellerId = Some 1, itemType = ''produce'', itemId = 99, quantity = 2\<rparr>"

section \<open>Properties\<close>

subsection \<open>Generated values\<close>

lemma foldr_max_ge: "x \<in> set ids \<Longrightarrow> x \<le> foldr max ids (0::nat)"
  by (induction ids) auto

lemma fresh_id_fresh: "fresh_id ids \<notin> set ids"
proof
  assume "fresh_id ids \<in> set ids"
  then have "fresh_id ids \<le> foldr max ids 0" by (rule foldr_max_ge)
  then show False by (simp add: fresh_id_def)
qed



lemma otp_23456: "generateOTP 23456 = ''123456''"
  by (simp add: generateOTP_def digit_char_def)

lemma otp_65432: "generateOTP 65432 = ''165432''"
  by (simp add: generateOTP_def digit_char_def)

subsection \<open>The sample data, evaluated\<close>

lemmas sample_defs = rajesh_def priya_def amit_def tractor_def harvester_def sprayer_def
  tomatoes_def rice_def onions_def urea_def seed_db_def seed_server_def no_env_def bearer_of_def

lemma auth_amit:
  "authenticateToken no_env 5000 (bearer_of amit 1000)
     = Inr \<lparr>userId = 3, phone = ''9876543212'', role = ''consumer''\<rparr>"
  by (simp add: authenticateToken_def bearer_def jwt_verify_def jwt_sign_def secret_def
      no_env_def bearer_of_def amit_def)

lemma auth_rajesh:
  "authenticateToken no_env 5000 (bearer_of rajesh 1000)
     = Inr \<lparr>userId = 1, phone = ''9876543210'', role = ''farmer''\<rparr>"
  by (simp add: authenticateToken_def bearer_def jwt_verify_def jwt_sign_def secret_def
      no_env_def bearer_of_def rajesh_def)

lemma pending_login_store:
  "otpStore pending_login ''9876543210''
     = Some \<lparr>otp = ''123456'', userData = None, expiresAt = 300000\<rparr>"
  by (simp add: pending_login_def request_otp_def Let_def otp_23456)

lemma pending_login_db: "db pending_login = seed_db"
  by (simp add: pending_login_def request_otp_def Let_def seed_server_def)

subsection \<open>Verifying a code\<close>

text \<open>
  Claim C4. Whatever the phone and the submitted code: when no entry is stored for the
  phone, or the stored entry's expiry has passed, or the submitted code differs from the
  stored one, \<^verbatim>\<open>verify-otp\<close> answers 400 with an error body, so it issues no token, and
  leaves the whole state as it found it, so it inserts no user. Both variants.
\<close>

theorem verify_otp_rejects_bad_code:
  assumes "otpStore s (vb_phone b) = None
     \<or> (\<exists>e. otpStore s (vb_phone b) = Some e \<and> (expiresAt e < now \<or> otp e \<noteq> vb_otp b))"
  shows "\<exists>msg. verify_otp bk ev now s b = (s, (400, ErrorBody msg))"
  using assms by (auto simp: verify_otp_def)

theorem verify_otp_rejects_bad_code_witness:
  "otpStore pending_login ''9876543210''
     = Some \<lparr>otp = ''123456'', userData = None, expiresAt = 300000\<rparr>
   \<and> (\<exists>msg. verify_otp Sqlite no_env 1000 pending_login
                \<lparr>vb_phone = ''9876543210'', vb_otp = ''654321''\<rparr>
              = (pending_login, (400, ErrorBody msg)))
   \<and> (\<exists>msg. verify_otp Postgres no_env 300001 pending_login
                \<lparr>vb_phone = ''9876543210'', vb_otp = ''123456''\<rparr>
              = (pending_login, (400, ErrorBody msg)))"
  using
    verify_otp_rejects_bad_code [of pending_login
      "\<lparr>vb_phone = ''9876543210'', vb_otp = ''654321''\<rparr>" 1000 Sqlite no_env]
    verify_otp_rejects_bad_code [of pending_login
      "\<lparr>vb_phone = ''9876543210'', vb_otp = ''123456''\<rparr>" 300001 Postgres no_env]
  by (simp add: pending_login_store)

lemma create_user_ok_clears:
  assumes "create_user bk ev now s p ud = (s', (200, Session t v))"
  shows "otpStore s' p = None"
  using assms
  by (auto simp: create_user_def Let_def internal_error_def issue_session_def
      split: sum.splits backend.splits list.splits prod.splits)

lemma verify_otp_ok_clears:
  assumes "verify_otp bk ev now s b = (s', (200, Session t v))"
  shows "otpStore s' (vb_phone b) = None \<and> vb_phone b \<noteq> [] \<and> vb_otp b \<noteq> []"
  using assms
  by (auto simp: verify_otp_def issue_session_def dest: create_user_ok_clears
      split: if_splits option.splits list.splits)

text \<open>
  Claim C5. A \<^verbatim>\<open>verify-otp\<close> that succeeds (200, with a session) leaves no entry for the
  phone in \<^verbatim>\<open>otpStore\<close>; the same request sent again to the state it left, at any later
  time and with no OTP request between, is answered 400 \<^verbatim>\<open>OTP expired or invalid\<close> and
  changes nothing.
\<close>

theorem verify_otp_single_use:
  assumes "verify_otp bk ev now s b = (s', (200, Session t v))"
  shows "otpStore s' (vb_phone b) = None
    \<and> verify_otp bk ev now' s' b = (s', (400, ErrorBody ''OTP expired or invalid''))"
proof -
  from verify_otp_ok_clears [OF assms]
  have c: "otpStore s' (vb_phone b) = None" and p: "vb_phone b \<noteq> []" and o: "vb_otp b \<noteq> []"
    by simp_all
  from c p o show ?thesis by (simp add: verify_otp_def)
qed

theorem verify_otp_single_use_witness:
  "fst (snd (verify_otp Postgres no_env 1000 pending_login
               \<lparr>vb_phone = ''9876543210'', vb_otp = ''123456''\<rparr>)) = 200
   \<and> otpStore (fst (verify_otp Postgres no_env 1000 pending_login
               \<lparr>vb_phone = ''9876543210'', vb_otp = ''123456''\<rparr>)) ''9876543210'' = None
   \<and> snd (verify_otp Postgres no_env 2000
        (fst (verify_otp Postgres no_env 1000 pending_login
               \<lparr>vb_phone = ''9876543210'', vb_otp = ''123456''\<rparr>))
        \<lparr>vb_phone = ''9876543210'', vb_otp = ''123456''\<rparr>)
     = (400, ErrorBody ''OTP expired or invalid'')"
proof -
  let ?b = "\<lparr>vb_phone = ''9876543210'', vb_otp = ''123456''\<rparr>"
  have "\<exists>s' t v. verify_otp Postgres no_env 1000 pending_login ?b = (s', (200, Session t v))"
    by (simp add: verify_otp_def pending_login_store pending_login_db issue_session_def
        users_by_phone_def Let_def sample_defs)
  then obtain s' t v
    where ok: "verify_otp Postgres no_env 1000 pending_login ?b = (s', (200, Session t v))"
    by blast
  from verify_otp_single_use [OF ok, of 2000] ok show ?thesis by simp
qed

subsection \<open>Requesting a code twice\<close>

lemma request_otp_ok:
  assumes "request_otp rnd t s p = (s', (200, m))"
  shows "p \<noteq> [] \<and> db s' = db s
    \<and> otpStore s' = (otpStore s)(p \<mapsto> \<lparr>otp = generateOTP rnd, userData = None, expiresAt = t + 300000\<rparr>)"
  using assms by (auto simp: request_otp_def Let_def split: if_splits)

lemma verify_otp_other_code:
  assumes "otpStore s (vb_phone b) = Some e" and "otp e \<noteq> vb_otp b"
  shows "\<exists>msg. verify_otp bk ev now s b = (s, (400, ErrorBody msg))"
  using assms by (auto simp: verify_otp_def)

text \<open>
  Claim C6, as amended. After two successful OTP requests in succession for one phone,
  the stored entry is the second request's (its code, its expiry, no pending user data);
  \<^verbatim>\<open>verify-otp\<close> with any code other than the second is answered 400 and changes
  nothing, so it can succeed only with the second code; in particular it fails with the
  first code whenever the first code differs from the second.
\<close>

theorem request_otp_twice_latest_wins:
  assumes "request_otp rnd1 t1 s p = (s1, (200, m1))"
      and "request_otp rnd2 t2 s1 p = (s2, (200, m2))"
  shows "otpStore s2 p = Some \<lparr>otp = generateOTP rnd2, userData = None, expiresAt = t2 + 300000\<rparr>
     \<and> (\<forall>code. code \<noteq> generateOTP rnd2 \<longrightarrow>
           (\<exists>msg. verify_otp bk ev now s2 \<lparr>vb_phone = p, vb_otp = code\<rparr> = (s2, (400, ErrorBody msg))))
     \<and> (generateOTP rnd1 \<noteq> generateOTP rnd2 \<longrightarrow>
           (\<exists>msg. verify_otp bk ev now s2 \<lparr>vb_phone = p, vb_otp = generateOTP rnd1\<rparr>
                    = (s2, (400, ErrorBody msg))))"
proof -
  from request_otp_ok [OF assms(2)]
  have st: "otpStore s2 p = Some \<lparr>otp = generateOTP rnd2, userData = None, expiresAt = t2 + 300000\<rparr>"
    by simp
  have other: "\<exists>msg. verify_otp bk ev now s2 \<lparr>vb_phone = p, vb_otp = code\<rparr> = (s2, (400, ErrorBody msg))"
    if "code \<noteq> generateOTP rnd2" for code
    using verify_otp_other_code [of s2 "\<lparr>vb_phone = p, vb_otp = code\<rparr>"] st that by simp
  from st other show ?thesis by blast
qed

theorem request_otp_twice_latest_wins_witness:
  "request_otp 23456 0 seed_server ''9876543210''
     = (pending_login, (200, OtpSent ''OTP sent successfully'' ''9876543210''))
   \<and> request_otp 65432 1000 pending_login ''9876543210''
     = (pending_relogin, (200, OtpSent ''OTP sent successfully'' ''9876543210''))
   \<and> otpStore pending_relogin ''9876543210''
     = Some \<lparr>otp = ''165432'', userData = None, expiresAt = 301000\<rparr>
   \<and> (\<exists>msg. verify_otp Postgres no_env 2000 pending_relogin
               \<lparr>vb_phone = ''9876543210'', vb_otp = ''123456''\<rparr>
             = (pending_relogin, (400, ErrorBody msg)))"
proof -
  have r1: "request_otp 23456 0 seed_server ''9876543210''
     = (pending_login, (200, OtpSent ''OTP sent successfully'' ''9876543210''))"
    by (simp add: pending_login_def request_otp_def Let_def)
  have r2: "request_otp 65432 1000 pending_login ''9876543210''
     = (pending_relogin, (200, OtpSent ''OTP sent successfully'' ''9876543210''))"
    by (simp add: pending_relogin_def request_otp_def Let_def)
  from request_otp_twice_latest_wins [OF r1 r2, of Postgres no_env 2000] r1 r2
  show ?thesis by (simp add: otp_23456 otp_65432)
qed

text \<open>
  The claim as stated fails when the generator returns the same code twice: the first
  code is then the stored one, and \<^verbatim>\<open>verify-otp\<close> with it succeeds.
\<close>

theorem request_otp_same_code_counterexample:
  "fst (snd (verify_otp Postgres no_env 2000
       (fst (request_otp 23456 1000 (fst (request_otp 23456 0 seed_server ''9876543210''))
          ''9876543210''))
       \<lparr>vb_phone = ''9876543210'', vb_otp = generateOTP 23456\<rparr>)) = 200"
  by (simp add: request_otp_def verify_otp_def issue_session_def users_by_phone_def
      Let_def otp_23456 sample_defs)

subsection \<open>Registering, then verifying\<close>









text \<open>
  It fails as well when the code is verified more than 300000 ms after the registration:
  the entry has expired.
\<close>

lemma register_then_late_verify_rejected:
  "verify_otp bk no_env 300001 (fst (register 23456 0 seed_server asha))
        \<lparr>vb_phone = ''9000000001'', vb_otp = generateOTP 23456\<rparr>
       = (fst (register 23456 0 seed_server asha), (400, ErrorBody ''OTP expired or invalid''))"
  by (simp add: register_def verify_otp_def users_by_phone_or_email_def Let_def otp_23456
      asha_def sample_defs)

subsection \<open>Creating equipment\<close>

text \<open>
  Claim C7. Whenever the request's token authenticates and the role in its payload is not
  \<^verbatim>\<open>equipment_provider\<close>, \<^verbatim>\<open>POST /api/v1/equipment\<close> answers 403 and the database, the
  equipment table with it, is the one the request found. Both variants.
\<close>

theorem post_equipment_requires_provider:
  assumes "authenticateToken ev now h = Inr u" and "role u \<noteq> ''equipment_provider''"
  shows "post_equipment bk ev now d h b = (d, (403, ErrorBody ''Insufficient permissions''))"
  using assms by (simp add: post_equipment_def authorizeRole_def)

theorem post_equipment_requires_provider_witness:
  "authenticateToken no_env 5000 (bearer_of rajesh 1000)
     = Inr \<lparr>userId = 1, phone = ''9876543210'', role = ''farmer''\<rparr>
   \<and> post_equipment Sqlite no_env 5000 seed_db (bearer_of rajesh 1000) plough
     = (seed_db, (403, ErrorBody ''Insufficient permissions''))
   \<and> post_equipment Postgres no_env 5000 seed_db (bearer_of rajesh 1000) plough
     = (seed_db, (403, ErrorBody ''Insufficient permissions''))"
  using post_equipment_requires_provider [OF auth_rajesh, of Sqlite seed_db plough]
    post_equipment_requires_provider [OF auth_rajesh, of Postgres seed_db plough] auth_rajesh
  by simp

text \<open>With the provider's own token the same request stores the row and answers 201.\<close>

lemma post_equipment_by_provider:
  "snd (post_equipment Postgres no_env 5000 seed_db (bearer_of priya 1000) plough)
     = (201, EquipmentCreated (Some
         \<lparr>e_id = 4, e_owner_id = Some 2, e_name = ''Plough'', e_type = ''plough'',
          e_base_rate_per_day = 50000, e_location = None,
          e_availability_status = Some ''available'', e_created_at = 5000\<rparr>))"
  by (simp add: post_equipment_def authenticateToken_def bearer_def jwt_verify_def jwt_sign_def
      secret_def authorizeRole_def insert_equipment_def users_by_id_def fresh_id_def
      Let_def plough_def sample_defs)

subsection \<open>Listings\<close>




lemma equipment_in_haryana:
  "get_equipment Sqlite contains_like seed_db
     \<lparr>eq_page = None, eq_limit = None, eq_type = None, eq_location = Some ''Haryana''\<rparr>
   = (200, EquipmentPage
       [\<lparr>el_row = harvester, owner_name = ''Priya Sharma'', owner_phone = ''9876543211'',
         owner_location = Some ''Haryana''\<rparr>,
        \<lparr>el_row = tractor, owner_name = ''Priya Sharma'', owner_phone = ''9876543211'',
         owner_location = Some ''Haryana''\<rparr>]
       \<lparr>pg_page = 1, pg_limit = 10, pg_total = 2\<rparr>)"
  by (simp add: get_equipment_def equipment_join_def equipment_where_def truthy_def
      limit_offset_def contains_like_def Let_def sample_defs)







subsection \<open>Creating an order\<close>

lemma insert_order_item_frame:
  assumes "insert_order_item d orderId a b q p t = Inr d'"
  shows "produce_tbl d' = produce_tbl d \<and> products d' = products d \<and> orders d' = orders d
    \<and> users d' = users d \<and> equipment_tbl d' = equipment_tbl d"
  using assms by (auto simp: insert_order_item_def split: if_splits)

lemma insert_order_frame:
  assumes "insert_order d buyer seller t a = Inr (d', row)"
  shows "produce_tbl d' = produce_tbl d \<and> products d' = products d \<and> users d' = users d
    \<and> order_items d' = order_items d \<and> equipment_tbl d' = equipment_tbl d"
  using assms by (auto simp: insert_order_def Let_def split: if_splits)

lemma create_items_missing:
  assumes "\<exists>item\<in>set its. missing_catalog_row d item"
  shows "\<exists>e. create_items d orderId its t = Inl e"
  using assms
proof (induction its arbitrary: d t)
  case Nil
  then show ?case by simp
next
  case (Cons item rest)
  show ?case
  proof (cases "missing_catalog_row d item")
    case True
    then show ?thesis
      by (auto simp: missing_catalog_row_def unit_price_of_def)
  next
    case False
    with Cons.prems have rest: "\<exists>i\<in>set rest. missing_catalog_row d i" by auto
    show ?thesis
    proof (cases "unit_price_of d item")
      case (Inl e)
      then show ?thesis by simp
    next
      case (Inr up)
      show ?thesis
      proof (cases up)
        case None
        with Inr show ?thesis by simp
      next
        case (Some price)
        show ?thesis
        proof (cases "insert_order_item d orderId
                     (if itemType item = ''produce'' then Some (itemId item) else None)
                     (if itemType item = ''product'' then Some (itemId item) else None)
                     (quantity item) price (price * quantity item)")
          case (Inl e)
          with Inr Some show ?thesis by (simp add: Let_def)
        next
          case ins: (Inr d')
          from insert_order_item_frame [OF ins]
          have "produce_tbl d' = produce_tbl d" and "products d' = products d" by simp_all
          with rest have "\<exists>i\<in>set rest. missing_catalog_row d' i"
            by (simp add: missing_catalog_row_def produce_by_id_def products_by_id_def)
          from Cons.IH [OF this] obtain e
            where "create_items d' orderId rest (t + price * quantity item) = Inl e" by blast
          with Inr Some ins show ?thesis by (simp add: Let_def)
        qed
      qed
    qed
  qed
qed

lemma order_transaction_missing:
  assumes "items b = Some its" and "\<exists>item\<in>set its. missing_catalog_row d item"
  shows "\<exists>e. order_transaction d buyer b = Inl e"
proof (cases its)
  case Nil
  with assms show ?thesis by simp
next
  case (Cons first rest)
  show ?thesis
  proof (cases "insert_order d buyer (sellerId first) 0 (deliveryAddress b)")
    case (Inl e)
    with assms Cons show ?thesis by (simp add: order_transaction_def)
  next
    case (Inr r)
    obtain d1 row where r: "r = (d1, row)" by (cases r)
    from insert_order_frame [OF Inr [unfolded r]]
    have "produce_tbl d1 = produce_tbl d" and "products d1 = products d" by simp_all
    with assms(2) have "\<exists>i\<in>set its. missing_catalog_row d1 i"
      by (simp add: missing_catalog_row_def produce_by_id_def products_by_id_def)
    from create_items_missing [OF this] obtain e
      where "create_items d1 (o_id row) its 0 = Inl e" by blast
    with assms(1) Cons Inr r show ?thesis by (simp add: order_transaction_def)
  qed
qed

text \<open>
  Claim C2. Whenever some line of the request is a produce or product line whose id
  selects no row of its table, the handler of \<^verbatim>\<open>POST /api/v1/orders\<close> rolls back and
  answers 500: the database it returns, orders and order items with it, is the one the
  request found. The handler runs for the identity \<^verbatim>\<open>authenticateToken\<close> passes on; the
  route as a whole never changes the database for such a request, and answers 500
  whenever the token authenticates.
\<close>

theorem order_rollback_on_missing_row:
  assumes "items b = Some its" and "\<exists>item\<in>set its. missing_catalog_row d item"
  shows "create_order d u b = (d, (500, ErrorBody ''Internal server error''))
    \<and> fst (post_orders ev now d h b) = d
    \<and> (authenticateToken ev now h = Inr u \<longrightarrow>
         post_orders ev now d h b = (d, (500, ErrorBody ''Internal server error'')))"
proof -
  have tx: "\<And>buyer. \<exists>e. order_transaction d buyer b = Inl e"
    using assms by (rule order_transaction_missing)
  have co: "\<And>v::jwt_payload. create_order d v b = (d, (500, ErrorBody ''Internal server error''))"
  proof -
    fix v :: jwt_payload
    from tx [of "userId v"] obtain e where "order_transaction d (userId v) b = Inl e" ..
    then show "create_order d v b = (d, (500, ErrorBody ''Internal server error''))"
      by (simp add: create_order_def internal_error_def)
  qed
  show ?thesis
    by (simp add: co post_orders_def split: sum.splits)
qed

theorem order_rollback_on_missing_row_witness:
  "missing_catalog_row seed_db ghost_line
   \<and> create_order seed_db \<lparr>userId = 3, phone = ''9876543212'', role = ''consumer''\<rparr>
        \<lparr>items = Some [tomato_line, ghost_line], deliveryAddress = None\<rparr>
       = (seed_db, (500, ErrorBody ''Internal server error''))
   \<and> post_orders no_env 5000 seed_db (bearer_of amit 1000)
        \<lparr>items = Some [tomato_line, ghost_line], deliveryAddress = None\<rparr>
       = (seed_db, (500, ErrorBody ''Internal server error''))"
proof -
  have m: "missing_catalog_row seed_db ghost_line"
    by (simp add: missing_catalog_row_def produce_by_id_def ghost_line_def sample_defs)
  have i: "items \<lparr>items = Some [tomato_line, ghost_line], deliveryAddress = None\<rparr>
             = Some [tomato_line, ghost_line]" by simp
  from m have e: "\<exists>item\<in>set [tomato_line, ghost_line]. missing_catalog_row seed_db item"
    by simp
  from order_rollback_on_missing_row [OF i e, of "\<lparr>userId = 3, phone = ''9876543212'',
      role = ''consumer''\<rparr>" no_env 5000 "bearer_of amit 1000"] auth_amit m
  show ?thesis by simp
qed

text \<open>
  Claim C10. For a caller whose token authenticates, a request whose \<^verbatim>\<open>items\<close> field is
  absent or an empty array is answered 500, and the database, orders and order items with
  it, is the one the request found: \<^verbatim>\<open>items[0].sellerId\<close> throws inside the transaction,
  before any insert.
\<close>

theorem post_orders_without_items:
  assumes "authenticateToken ev now h = Inr u" and "items b = None \<or> items b = Some []"
  shows "post_orders ev now d h b = (d, (500, ErrorBody ''Internal server error''))"
  using assms
  by (auto simp: post_orders_def create_order_def order_transaction_def internal_error_def)

theorem post_orders_without_items_witness:
  "authenticateToken no_env 5000 (bearer_of rajesh 1000)
     = Inr \<lparr>userId = 1, phone = ''9876543210'', role = ''farmer''\<rparr>
   \<and> post_orders no_env 5000 seed_db (bearer_of rajesh 1000)
        \<lparr>items = None, deliveryAddress = Some ''Ludhiana''\<rparr>
       = (seed_db, (500, ErrorBody ''Internal server error''))"
  using post_orders_without_items [OF auth_rajesh, of
      "\<lparr>items = None, deliveryAddress = Some ''Ludhiana''\<rparr>" seed_db] auth_rajesh
  by simp





lemma update_fresh_order:
  "map (\<lambda>r. if o_id r = fresh_id (map o_id os) then r\<lparr>o_total_amount := t\<rparr> else r) os = os"
proof -
  have "\<forall>r\<in>set os. o_id r \<noteq> fresh_id (map o_id os)"
    using fresh_id_fresh [of "map o_id os"] by (metis image_eqI list.set_map)
  then show ?thesis by (simp add: map_idI)
qed




text \<open>
  It fails as well when the first line names a seller who is no user: the INSERT of the
  order row violates the reference from \<^verbatim>\<open>seller_id\<close> to \<^verbatim>\<open>users(id)\<close>.
\<close>

lemma order_with_unknown_seller_rejected:
  "catalog_row_exists seed_db (tomato_line\<lparr>sellerId := Some 99\<rparr>)
   \<and> post_orders no_env 5000 seed_db (bearer_of amit 1000)
        \<lparr>items = Some [tomato_line\<lparr>sellerId := Some 99\<rparr>], deliveryAddress = None\<rparr>
       = (seed_db, (500, ErrorBody ''Internal server error''))"
  unfolding post_orders_def auth_amit
  by (simp add: create_order_def order_transaction_def insert_order_def users_by_id_def
      internal_error_def catalog_row_exists_def produce_by_id_def tomato_line_def sample_defs)

text \<open>And when the token's user is no row of the users table: \<^verbatim>\<open>buyer_id\<close> references it.\<close>

lemma order_by_unknown_buyer_rejected:
  "catalog_row_exists seed_db tomato_line
   \<and> post_orders no_env 5000 seed_db (bearer_of (rajesh\<lparr>u_id := 42\<rparr>) 1000)
        \<lparr>items = Some [tomato_line], deliveryAddress = None\<rparr>
       = (seed_db, (500, ErrorBody ''Internal server error''))"
  by (simp add: post_orders_def authenticateToken_def bearer_def jwt_verify_def jwt_sign_def
      secret_def create_order_def order_transaction_def insert_order_def users_by_id_def
      internal_error_def catalog_row_exists_def produce_by_id_def tomato_line_def sample_defs)

subsection \<open>Further properties\<close>

lemma insert_order_item_stored:
  assumes "insert_order_item d orderId a b q p t = Inr d1"
  shows "\<exists>row. d1 = d\<lparr>order_items := order_items d @ [row]\<rparr> \<and> oi_order_id row = Some orderId
    \<and> oi_total_price row = t"
  using assms by (auto simp: insert_order_item_def split: if_splits)

lemma create_items_stored:
  assumes "create_items d orderId its t = Inr (d', t')"
  shows "\<exists>new. d' = d\<lparr>order_items := order_items d @ new\<rparr>
    \<and> t' = t + sum_list (map oi_total_price new)
    \<and> length new = length its
    \<and> list_all (\<lambda>r. oi_order_id r = Some orderId) new"
  using assms
proof (induction its arbitrary: d t)
  case Nil
  then have "d' = d\<lparr>order_items := order_items d @ []\<rparr>
      \<and> t' = t + sum_list (map oi_total_price [])
      \<and> length ([] :: order_item list) = length ([] :: order_line list)
      \<and> list_all (\<lambda>r. oi_order_id r = Some orderId) []"
    by simp
  then show ?case by (rule exI)
next
  case (Cons item rest)
  from Cons.prems obtain price d1 where
    ins: "insert_order_item d orderId
            (if itemType item = ''produce'' then Some (itemId item) else None)
            (if itemType item = ''product'' then Some (itemId item) else None)
            (quantity item) price (price * quantity item) = Inr d1"
    and rec: "create_items d1 orderId rest (t + price * quantity item) = Inr (d', t')"
    by (auto simp: Let_def split: sum.splits option.splits)
  from insert_order_item_stored [OF ins] obtain row where
    d1: "d1 = d\<lparr>order_items := order_items d @ [row]\<rparr>"
    and row: "oi_order_id row = Some orderId" "oi_total_price row = price * quantity item"
    by blast
  from Cons.IH [OF rec] obtain new where
    d': "d' = d1\<lparr>order_items := order_items d1 @ new\<rparr>"
    and t': "t' = t + price * quantity item + sum_list (map oi_total_price new)"
    and len: "length new = length rest"
    and ids: "list_all (\<lambda>r. oi_order_id r = Some orderId) new"
    by blast
  have "d' = d\<lparr>order_items := order_items d @ (row # new)\<rparr>"
    using d' d1 by simp
  moreover have "t' = t + sum_list (map oi_total_price (row # new))"
    using t' row by simp
  moreover have "length (row # new) = length (item # rest)"
    using len by simp
  moreover have "list_all (\<lambda>r. oi_order_id r = Some orderId) (row # new)"
    using ids row by simp
  ultimately show ?case by blast
qed

text \<open>
  The order handler is all or nothing, and the stored total is derived from the stored
  lines. Whatever the request, either the handler answers 500 and returns the database
  it found, or it answers 201 and has added exactly one order row and one order item row
  per line, each carrying the new order's id, and the order's \<^verbatim>\<open>total_amount\<close> is the sum
  of their \<^verbatim>\<open>total_price\<close>; no other table changes.
\<close>

theorem create_order_all_or_nothing:
  "create_order d u b = (d, (500, ErrorBody ''Internal server error''))
   \<or> (\<exists>d' row new its.
         create_order d u b = (d', (201, OrderCreated (o_id row) (o_total_amount row)))
       \<and> items b = Some its
       \<and> orders d' = orders d @ [row]
       \<and> order_items d' = order_items d @ new
       \<and> length new = length its
       \<and> list_all (\<lambda>r. oi_order_id r = Some (o_id row)) new
       \<and> o_total_amount row = sum_list (map oi_total_price new)
       \<and> users d' = users d \<and> equipment_tbl d' = equipment_tbl d
       \<and> produce_tbl d' = produce_tbl d \<and> products d' = products d)"
proof (cases "order_transaction d (userId u) b")
  case (Inl e)
  then show ?thesis by (simp add: create_order_def internal_error_def)
next
  case (Inr r)
  from Inr obtain first rest d1 row0 d2 t where
    its: "items b = Some (first # rest)"
    and ins: "insert_order d (userId u) (sellerId first) 0 (deliveryAddress b) = Inr (d1, row0)"
    and loop: "create_items d1 (o_id row0) (first # rest) 0 = Inr (d2, t)"
    and r: "r = (update_order_total d2 t (o_id row0), o_id row0, t)"
    by (auto simp: order_transaction_def simp del: create_items.simps
        split: option.splits list.splits sum.splits prod.splits)
  from ins have d1: "d1 = d\<lparr>orders := orders d @ [row0]\<rparr>"
    and oid: "o_id row0 = fresh_id (map o_id (orders d))"
    by (auto simp: insert_order_def Let_def split: if_splits)
  from create_items_stored [OF loop] obtain new where
    d2: "d2 = d1\<lparr>order_items := order_items d1 @ new\<rparr>"
    and t: "t = 0 + sum_list (map oi_total_price new)"
    and len: "length new = length (first # rest)"
    and ids: "list_all (\<lambda>r. oi_order_id r = Some (o_id row0)) new"
    by blast
  let ?row = "row0\<lparr>o_total_amount := t\<rparr>"
  let ?d' = "update_order_total d2 t (o_id row0)"
  have ords: "orders ?d' = orders d @ [?row]"
    by (simp add: update_order_total_def d2 d1 oid update_fresh_order)
  have rest_tbls: "order_items ?d' = order_items d @ new" "users ?d' = users d"
    "equipment_tbl ?d' = equipment_tbl d" "produce_tbl ?d' = produce_tbl d"
    "products ?d' = products d"
    by (simp_all add: update_order_total_def d2 d1)
  have resp: "create_order d u b = (?d', (201, OrderCreated (o_id ?row) (o_total_amount ?row)))"
    by (simp add: create_order_def Inr r)
  have "create_order d u b = (?d', (201, OrderCreated (o_id ?row) (o_total_amount ?row)))
       \<and> items b = Some (first # rest)
       \<and> orders ?d' = orders d @ [?row]
       \<and> order_items ?d' = order_items d @ new
       \<and> length new = length (first # rest)
       \<and> list_all (\<lambda>r. oi_order_id r = Some (o_id ?row)) new
       \<and> o_total_amount ?row = sum_list (map oi_total_price new)
       \<and> users ?d' = users d \<and> equipment_tbl ?d' = equipment_tbl d
       \<and> produce_tbl ?d' = produce_tbl d \<and> products ?d' = products d"
    using resp its ords rest_tbls len ids t by simp
  then show ?thesis by blast
qed

text \<open>
  A registration for a phone, or an email, that a user already has is answered 400 and
  stores no code.
\<close>

theorem register_conflict:
  assumes "rb_name b \<noteq> []" and "rb_phone b \<noteq> []" and "rb_role b \<noteq> []"
    and "users_by_phone_or_email (db s) (rb_phone b) (rb_email b) \<noteq> []"
  shows "register rnd now s b
           = (s, (400, ErrorBody ''User already exists with this phone or email''))"
  using assms by (simp add: register_def)

theorem register_conflict_witness:
  "users_by_phone_or_email (db seed_server) ''9876543210'' None = [rajesh]
   \<and> register 23456 0 seed_server (asha\<lparr>rb_phone := ''9876543210''\<rparr>)
       = (seed_server, (400, ErrorBody ''User already exists with this phone or email''))"
proof -
  have u: "users_by_phone_or_email (db seed_server) ''9876543210'' None = [rajesh]"
    by (simp add: users_by_phone_or_email_def sample_defs)
  have h: "rb_name (asha\<lparr>rb_phone := ''9876543210''\<rparr>) \<noteq> []"
    "rb_phone (asha\<lparr>rb_phone := ''9876543210''\<rparr>) \<noteq> []"
    "rb_role (asha\<lparr>rb_phone := ''9876543210''\<rparr>) \<noteq> []"
    "users_by_phone_or_email (db seed_server) (rb_phone (asha\<lparr>rb_phone := ''9876543210''\<rparr>))
       (rb_email (asha\<lparr>rb_phone := ''9876543210''\<rparr>)) \<noteq> []"
    using u by (simp_all add: asha_def)
  from register_conflict [OF h, of 23456 0] u show ?thesis by simp
qed

lemma issue_session_token:
  assumes "issue_session ev now s p u = (s', (200, Session t v))"
  shows "t = jwt_sign \<lparr>userId = uv_id v, phone = uv_phone v, role = uv_role v\<rparr> (secret ev) now"
  using assms by (auto simp: issue_session_def Let_def view_of_def)

lemma verify_otp_token:
  assumes "verify_otp bk ev now s b = (s', (200, Session t v))"
  shows "t = jwt_sign \<lparr>userId = uv_id v, phone = uv_phone v, role = uv_role v\<rparr> (secret ev) now"
  using assms
  by (auto simp: verify_otp_def create_user_def Let_def internal_error_def
      dest: issue_session_token
      split: if_splits option.splits list.splits sum.splits backend.splits prod.splits)

text \<open>
  The token of a successful \<^verbatim>\<open>verify-otp\<close> carries the id, phone and role of the user in
  the answer, and \<^verbatim>\<open>authenticateToken\<close> accepts it, under the same environment, as the
  bearer token of any request made less than seven days (604800 s) later.
\<close>

theorem session_token_authenticates:
  assumes "verify_otp bk ev now s b = (s', (200, Session t v))"
    and "now' div 1000 < now div 1000 + 604800"
  shows "authenticateToken ev now' (Some [Plain ''Bearer'', Signed t])
           = Inr \<lparr>userId = uv_id v, phone = uv_phone v, role = uv_role v\<rparr>"
  using assms(2)
  by (simp add: verify_otp_token [OF assms(1)] authenticateToken_def bearer_def
      jwt_verify_def jwt_sign_def)

theorem session_token_authenticates_witness:
  "fst (snd (verify_otp Sqlite no_env 1000 pending_login
               \<lparr>vb_phone = ''9876543210'', vb_otp = ''123456''\<rparr>)) = 200
   \<and> (\<exists>s' t v. verify_otp Sqlite no_env 1000 pending_login
               \<lparr>vb_phone = ''9876543210'', vb_otp = ''123456''\<rparr> = (s', (200, Session t v))
        \<and> authenticateToken no_env 604800999 (Some [Plain ''Bearer'', Signed t])
            = Inr \<lparr>userId = 1, phone = ''9876543210'', role = ''farmer''\<rparr>)"
proof -
  let ?b = "\<lparr>vb_phone = ''9876543210'', vb_otp = ''123456''\<rparr>"
  have "\<exists>s' t. verify_otp Sqlite no_env 1000 pending_login ?b
      = (s', (200, Session t (view_of rajesh)))"
    by (simp add: verify_otp_def pending_login_store pending_login_db issue_session_def
        users_by_phone_def Let_def seed_db_def)
      (simp add: rajesh_def priya_def amit_def)
  then obtain s' t
    where ok: "verify_otp Sqlite no_env 1000 pending_login ?b
      = (s', (200, Session t (view_of rajesh)))"
    by blast
  have late: "(604800999::nat) div 1000 < 1000 div 1000 + 604800" by simp
  from session_token_authenticates [OF ok late]
  have "authenticateToken no_env 604800999 (Some [Plain ''Bearer'', Signed t])
            = Inr \<lparr>userId = 1, phone = ''9876543210'', role = ''farmer''\<rparr>"
    by (simp add: view_of_def rajesh_def)
  with ok show ?thesis by auto
qed

end
